theory Spec2Isabelle
  imports Complex_Main
begin

section \<open>The progress ledger of \<open>src/models/Progress.js\<close>\<close>

text \<open>
  The Mongoose schema \<open>progressSchema\<close> is embedded as records, one per sub-document,
  and its methods as functions that take the document and return the updated one.

  \<^item> A JavaScript \<open>Number\<close> is a \<open>rat\<close>: arithmetic is exact, there is no
    \<open>NaN\<close> and no infinity. The only divisions of the methods are by a constant or by an
    array length that the code has checked or made positive.
  \<^item> A \<open>Date\<close> is its \<open>getTime()\<close>, an \<open>int\<close> of milliseconds since the epoch; a
    field that may be undefined is an \<open>option\<close>. Every \<open>new Date()\<close> of one method call
    reads the clock; the model passes that reading as the argument \<open>now\<close>.
  \<^item> \<open>Array.prototype.find\<close> is \<open>List.find\<close>, \<open>filter\<close> is \<open>filter\<close>,
    \<open>reduce(f, 0)\<close> is \<open>foldl f 0\<close>, \<open>push\<close> appends at the end.
  \<^item> The arrays of the document are Mongoose document arrays. An element that \<open>find\<close>
    returns is the sub-document itself, and the method mutates it in place: the model
    rewrites the first array element that satisfies the predicate of the \<open>find\<close>
    (\<open>update_first\<close>). \<open>push\<close> of a plain object stores a copy cast to a
    sub-document, so the array holds the object as it was when pushed: what a method
    assigns afterwards to the object it created reaches the value it returns, not the
    document. \<open>updateLessonProgress\<close> completes its new object before the push; the
    other methods push first and assign afterwards.
  \<^item> Field names carry the prefix of their sub-document (\<open>les_\<close>, \<open>spk_\<close>, \<open>sa_\<close>,
    \<open>lis_\<close>, \<open>la_\<close>, \<open>skl_\<close>, \<open>voc_\<close>, \<open>day_\<close>, \<open>act_\<close>), since the schema
    reuses names such as \<open>attempts\<close>, \<open>bestScore\<close> and \<open>timeSpent\<close>.
\<close>

subsection \<open>Numbers\<close>

definition js_floor :: "rat \<Rightarrow> rat" where
  "js_floor x = of_int \<lfloor>x\<rfloor>"

text \<open>\<open>Math.round\<close> rounds to the nearest integer, a half towards plus infinity.\<close>

definition js_round :: "rat \<Rightarrow> rat" where
  "js_round x = of_int \<lfloor>x + 1 / 2\<rfloor>"

subsection \<open>Arrays\<close>

fun update_first :: "('a \<Rightarrow> bool) \<Rightarrow> ('a \<Rightarrow> 'a) \<Rightarrow> 'a list \<Rightarrow> 'a list" where
  "update_first P f [] = []"
| "update_first P f (x # xs) = (if P x then f x # xs else x # update_first P f xs)"

subsection \<open>The schema\<close>

datatype lesson_status = not_started | in_progress | completed | mastered

record lesson_entry =
  les_lessonId :: string
  les_status :: lesson_status
  les_score :: rat
  les_attempts :: rat
  les_timeSpent :: rat
  les_lastAttempt :: "int option"
  les_completedAt :: "int option"
  les_masteredAt :: "int option"

record speaking_attempt =
  sa_attemptDate :: int
  sa_pronunciationScore :: rat
  sa_fluencyScore :: rat
  sa_accuracyScore :: rat
  sa_overallScore :: rat
  sa_recordingDuration :: rat
  sa_feedback :: string
  sa_improvements :: "string list"

record speaking_entry =
  spk_exerciseId :: string
  spk_exerciseText :: string
  spk_category :: string
  spk_difficulty :: string
  spk_attempts :: "speaking_attempt list"
  spk_bestScore :: rat
  spk_totalAttempts :: rat
  spk_averageScore :: rat
  spk_lastPracticed :: "int option"
  spk_isCompleted :: bool

record answer =
  questionId :: string
  userAnswer :: string
  correctAnswer :: string
  isCorrect :: bool

record listening_attempt =
  la_attemptDate :: int
  la_comprehensionScore :: rat
  la_questionsAnswered :: rat
  la_correctAnswers :: rat
  la_timeSpent :: rat
  la_completionRate :: rat
  la_answers :: "answer list"
  la_feedback :: string

record listening_entry =
  lis_exerciseId :: string
  lis_audioTitle :: string
  lis_audioUrl :: string
  lis_transcript :: string
  lis_category :: string
  lis_difficulty :: string
  lis_duration :: rat
  lis_attempts :: "listening_attempt list"
  lis_bestScore :: rat
  lis_totalAttempts :: rat
  lis_averageScore :: rat
  lis_lastPracticed :: "int option"
  lis_isCompleted :: bool

record skill_entry =
  skl_skill :: string
  skl_level :: rat
  skl_xp :: rat
  skl_accuracy :: rat
  skl_lastPracticed :: "int option"

record vocabulary_entry =
  voc_wordId :: string
  voc_word :: string
  voc_translation :: string
  voc_strength :: rat
  voc_correctAnswers :: rat
  voc_totalAnswers :: rat
  voc_lastReviewed :: "int option"
  voc_nextReview :: "int option"
  voc_isLearned :: bool

record activity =
  act_type :: string
  act_count :: rat
  act_xp :: rat

record daily_entry =
  day_date :: int
  day_xpEarned :: rat
  day_lessonsCompleted :: rat
  day_timeSpent :: rat
  day_activitiesCompleted :: "activity list"

record weekly_goals =
  xpTarget :: rat
  lessonsTarget :: rat
  timeTarget :: rat
  currentWeekXP :: rat
  currentWeekLessons :: rat
  currentWeekTime :: rat
  weekStartDate :: int

record statistics_rec =
  totalLessonsCompleted :: rat
  totalTimeSpent :: rat
  averageScore :: rat
  bestStreak :: rat
  wordsLearned :: rat
  perfectScores :: rat
  speakingExercisesCompleted :: rat
  listeningExercisesCompleted :: rat
  averageSpeakingScore :: rat
  averageListeningScore :: rat

record progress =
  userId :: string
  language :: string
  lessonProgress :: "lesson_entry list"
  speakingProgress :: "speaking_entry list"
  listeningProgress :: "listening_entry list"
  skillProgress :: "skill_entry list"
  vocabularyProgress :: "vocabulary_entry list"
  dailyProgress :: "daily_entry list"
  weeklyGoals :: weekly_goals
  statistics :: statistics_rec

subsection \<open>\<open>updateStatistics\<close>\<close>

text \<open>
  Each assignment of the method is one record update, in the order of the source. The
  three averages are assigned under a guard on the length of the array they divide by;
  when the guard fails the field keeps the value it had. \<open>bestStreak\<close> is not assigned.
\<close>

definition updateStatistics :: "progress \<Rightarrow> progress" where
  "updateStatistics p =
    (let completedLessons =
           filter (\<lambda>lp. les_status lp = completed \<or> les_status lp = mastered) (lessonProgress p);
         st1 = (statistics p)\<lparr>totalLessonsCompleted := of_nat (length completedLessons)\<rparr>;
         st2 = st1\<lparr>totalTimeSpent :=
                 foldl (\<lambda>total lp. total + les_timeSpent lp) 0 (lessonProgress p)\<rparr>;
         st3 = (if length completedLessons > 0
                then st2\<lparr>averageScore :=
                       foldl (\<lambda>total lp. total + les_score lp) 0 completedLessons
                         / of_nat (length completedLessons)\<rparr>
                else st2);
         st4 = st3\<lparr>perfectScores :=
                 of_nat (length (filter (\<lambda>lp. les_score lp = 100) (lessonProgress p)))\<rparr>;
         st5 = st4\<lparr>wordsLearned :=
                 of_nat (length (filter (\<lambda>vp. voc_isLearned vp) (vocabularyProgress p)))\<rparr>;
         st6 = st5\<lparr>speakingExercisesCompleted :=
                 of_nat (length (filter (\<lambda>sp. spk_isCompleted sp) (speakingProgress p)))\<rparr>;
         st7 = st6\<lparr>listeningExercisesCompleted :=
                 of_nat (length (filter (\<lambda>lp. lis_isCompleted lp) (listeningProgress p)))\<rparr>;
         st8 = (if length (speakingProgress p) > 0
                then st7\<lparr>averageSpeakingScore :=
                       js_round (foldl (\<lambda>sum sp. sum + spk_averageScore sp) 0 (speakingProgress p)
                                 / of_nat (length (speakingProgress p)))\<rparr>
                else st7);
         st9 = (if length (listeningProgress p) > 0
                then st8\<lparr>averageListeningScore :=
                       js_round (foldl (\<lambda>sum lp. sum + lis_averageScore lp) 0 (listeningProgress p)
                                 / of_nat (length (listeningProgress p)))\<rparr>
                else st8)
     in p\<lparr>statistics := st9\<rparr>)"

subsection \<open>\<open>updateLessonProgress\<close>\<close>

text \<open>The branch for a lesson that \<open>find\<close> returned: the mutations of the found entry.\<close>

definition lesson_attempt :: "rat \<Rightarrow> rat \<Rightarrow> int \<Rightarrow> lesson_entry \<Rightarrow> lesson_entry" where
  "lesson_attempt score timeSpent now lp =
    (let lp1 = lp\<lparr>les_attempts := les_attempts lp + 1\<rparr>;
         lp2 = lp1\<lparr>les_timeSpent := les_timeSpent lp1 + timeSpent\<rparr>;
         lp3 = lp2\<lparr>les_lastAttempt := Some now\<rparr>;
         lp4 = (if score > les_score lp3 then lp3\<lparr>les_score := score\<rparr> else lp3)
     in if score \<ge> 90 \<and> les_attempts lp4 \<ge> 2
        then lp4\<lparr>les_status := mastered, les_masteredAt := Some now\<rparr>
        else if score \<ge> 70
        then lp4\<lparr>les_status := completed, les_completedAt := Some now\<rparr>
        else lp4\<lparr>les_status := in_progress\<rparr>)"

text \<open>The branch for a lesson seen for the first time: the object that is pushed.\<close>

definition new_lesson :: "string \<Rightarrow> rat \<Rightarrow> rat \<Rightarrow> int \<Rightarrow> lesson_entry" where
  "new_lesson lessonId score timeSpent now =
    \<lparr>les_lessonId = lessonId,
     les_status = (if score \<ge> 70 then completed else in_progress),
     les_score = score,
     les_attempts = 1,
     les_timeSpent = timeSpent,
     les_lastAttempt = Some now,
     les_completedAt = (if score \<ge> 70 then Some now else None),
     les_masteredAt = None\<rparr>"

definition updateLessonProgress :: "progress \<Rightarrow> string \<Rightarrow> rat \<Rightarrow> rat \<Rightarrow> int \<Rightarrow> progress" where
  "updateLessonProgress p lessonId score timeSpent now =
    (case List.find (\<lambda>lp. les_lessonId lp = lessonId) (lessonProgress p) of
       Some _ \<Rightarrow>
         updateStatistics
           (p\<lparr>lessonProgress :=
                update_first (\<lambda>lp. les_lessonId lp = lessonId)
                  (lesson_attempt score timeSpent now) (lessonProgress p)\<rparr>)
     | None \<Rightarrow>
         updateStatistics
           (p\<lparr>lessonProgress :=
                lessonProgress p @ [new_lesson lessonId score timeSpent now]\<rparr>))"

subsection \<open>\<open>updateSpeakingProgress\<close>\<close>

text \<open>The two arguments of the method, \<open>exerciseData\<close> and \<open>attemptData\<close>.\<close>

record speaking_exercise_data =
  sx_exerciseId :: string
  sx_exerciseText :: string
  sx_category :: string
  sx_difficulty :: string

record speaking_attempt_data =
  sd_pronunciationScore :: rat
  sd_fluencyScore :: rat
  sd_accuracyScore :: rat
  sd_recordingDuration :: rat
  sd_feedback :: string
  sd_improvements :: "string list"

text \<open>What the two attempt methods return: \<open>{ leveledUp: false, newScore }\<close>.\<close>

record attempt_result =
  leveledUp :: bool
  newScore :: rat

definition new_speaking :: "speaking_exercise_data \<Rightarrow> int \<Rightarrow> speaking_entry" where
  "new_speaking exerciseData now =
    \<lparr>spk_exerciseId = sx_exerciseId exerciseData,
     spk_exerciseText = sx_exerciseText exerciseData,
     spk_category = sx_category exerciseData,
     spk_difficulty = sx_difficulty exerciseData,
     spk_attempts = [],
     spk_bestScore = 0,
     spk_totalAttempts = 0,
     spk_averageScore = 0,
     spk_lastPracticed = Some now,
     spk_isCompleted = False\<rparr>"

definition speaking_overall :: "speaking_attempt_data \<Rightarrow> rat" where
  "speaking_overall attemptData =
    js_round ((sd_pronunciationScore attemptData + sd_fluencyScore attemptData
               + sd_accuracyScore attemptData) / 3)"

text \<open>
  The mutations of the entry, from \<open>attempts.push(newAttempt)\<close> to the completion flag.
  For an exercise that \<open>find\<close> returned they change the sub-document. For a new exercise
  the method has pushed its object before, and they change that object only: the document
  keeps \<open>new_speaking\<close> as it was pushed.
\<close>

definition speaking_attempt ::
  "speaking_attempt_data \<Rightarrow> int \<Rightarrow> speaking_entry \<Rightarrow> speaking_entry" where
  "speaking_attempt attemptData now sp =
    (let overallScore = speaking_overall attemptData;
         newAttempt =
           \<lparr>sa_attemptDate = now,
            sa_pronunciationScore = sd_pronunciationScore attemptData,
            sa_fluencyScore = sd_fluencyScore attemptData,
            sa_accuracyScore = sd_accuracyScore attemptData,
            sa_overallScore = overallScore,
            sa_recordingDuration = sd_recordingDuration attemptData,
            sa_feedback = sd_feedback attemptData,
            sa_improvements = sd_improvements attemptData\<rparr>;
         sp1 = sp\<lparr>spk_attempts := spk_attempts sp @ [newAttempt]\<rparr>;
         sp2 = sp1\<lparr>spk_totalAttempts := spk_totalAttempts sp1 + 1\<rparr>;
         sp3 = sp2\<lparr>spk_lastPracticed := Some now\<rparr>;
         sp4 = (if overallScore > spk_bestScore sp3
                then sp3\<lparr>spk_bestScore := overallScore\<rparr> else sp3);
         totalScore = foldl (\<lambda>sum attempt. sum + sa_overallScore attempt) 0 (spk_attempts sp4);
         sp5 = sp4\<lparr>spk_averageScore :=
                 js_round (totalScore / of_nat (length (spk_attempts sp4)))\<rparr>
     in if overallScore \<ge> 80 then sp5\<lparr>spk_isCompleted := True\<rparr> else sp5)"

definition updateSpeakingProgress ::
  "progress \<Rightarrow> speaking_exercise_data \<Rightarrow> speaking_attempt_data \<Rightarrow> int
    \<Rightarrow> attempt_result \<times> progress" where
  "updateSpeakingProgress p exerciseData attemptData now =
    (let exerciseId = sx_exerciseId exerciseData;
         entries =
           (case List.find (\<lambda>sp. spk_exerciseId sp = exerciseId) (speakingProgress p) of
              Some _ \<Rightarrow>
                update_first (\<lambda>sp. spk_exerciseId sp = exerciseId)
                  (speaking_attempt attemptData now) (speakingProgress p)
            | None \<Rightarrow> speakingProgress p @ [new_speaking exerciseData now])
     in (\<lparr>leveledUp = False, newScore = speaking_overall attemptData\<rparr>,
         updateStatistics (p\<lparr>speakingProgress := entries\<rparr>)))"

subsection \<open>\<open>updateListeningProgress\<close>\<close>

record listening_exercise_data =
  lx_exerciseId :: string
  lx_audioTitle :: string
  lx_audioUrl :: string
  lx_transcript :: string
  lx_category :: string
  lx_difficulty :: string
  lx_duration :: rat

record listening_attempt_data =
  ld_comprehensionScore :: rat
  ld_questionsAnswered :: rat
  ld_correctAnswers :: rat
  ld_timeSpent :: rat
  ld_completionRate :: rat
  ld_answers :: "answer list"
  ld_feedback :: string

definition new_listening :: "listening_exercise_data \<Rightarrow> int \<Rightarrow> listening_entry" where
  "new_listening exerciseData now =
    \<lparr>lis_exerciseId = lx_exerciseId exerciseData,
     lis_audioTitle = lx_audioTitle exerciseData,
     lis_audioUrl = lx_audioUrl exerciseData,
     lis_transcript = lx_transcript exerciseData,
     lis_category = lx_category exerciseData,
     lis_difficulty = lx_difficulty exerciseData,
     lis_duration = lx_duration exerciseData,
     lis_attempts = [],
     lis_bestScore = 0,
     lis_totalAttempts = 0,
     lis_averageScore = 0,
     lis_lastPracticed = Some now,
     lis_isCompleted = False\<rparr>"

definition listening_attempt ::
  "listening_attempt_data \<Rightarrow> int \<Rightarrow> listening_entry \<Rightarrow> listening_entry" where
  "listening_attempt attemptData now lp =
    (let comprehensionScore = ld_comprehensionScore attemptData;
         newAttempt =
           \<lparr>la_attemptDate = now,
            la_comprehensionScore = comprehensionScore,
            la_questionsAnswered = ld_questionsAnswered attemptData,
            la_correctAnswers = ld_correctAnswers attemptData,
            la_timeSpent = ld_timeSpent attemptData,
            la_completionRate = ld_completionRate attemptData,
            la_answers = ld_answers attemptData,
            la_feedback = ld_feedback attemptData\<rparr>;
         lp1 = lp\<lparr>lis_attempts := lis_attempts lp @ [newAttempt]\<rparr>;
         lp2 = lp1\<lparr>lis_totalAttempts := lis_totalAttempts lp1 + 1\<rparr>;
         lp3 = lp2\<lparr>lis_lastPracticed := Some now\<rparr>;
         lp4 = (if comprehensionScore > lis_bestScore lp3
                then lp3\<lparr>lis_bestScore := comprehensionScore\<rparr> else lp3);
         totalScore =
           foldl (\<lambda>sum attempt. sum + la_comprehensionScore attempt) 0 (lis_attempts lp4);
         lp5 = lp4\<lparr>lis_averageScore :=
                 js_round (totalScore / of_nat (length (lis_attempts lp4)))\<rparr>
     in if comprehensionScore \<ge> 80 then lp5\<lparr>lis_isCompleted := True\<rparr> else lp5)"

definition updateListeningProgress ::
  "progress \<Rightarrow> listening_exercise_data \<Rightarrow> listening_attempt_data \<Rightarrow> int
    \<Rightarrow> attempt_result \<times> progress" where
  "updateListeningProgress p exerciseData attemptData now =
    (let exerciseId = lx_exerciseId exerciseData;
         entries =
           (case List.find (\<lambda>lp. lis_exerciseId lp = exerciseId) (listeningProgress p) of
              Some _ \<Rightarrow>
                update_first (\<lambda>lp. lis_exerciseId lp = exerciseId)
                  (listening_attempt attemptData now) (listeningProgress p)
            | None \<Rightarrow> listeningProgress p @ [new_listening exerciseData now])
     in (\<lparr>leveledUp = False, newScore = ld_comprehensionScore attemptData\<rparr>,
         updateStatistics (p\<lparr>listeningProgress := entries\<rparr>)))"

subsection \<open>\<open>updateSkillProgress\<close>\<close>

text \<open>
  The method returns \<open>{ leveledUp: true, skill, newLevel }\<close> from inside the guard and
  \<open>{ leveledUp: false, skill, level }\<close> after it.
\<close>

datatype skill_result = LeveledUp string rat | NoLevelUp string rat

definition new_skill :: "string \<Rightarrow> int \<Rightarrow> skill_entry" where
  "new_skill skill now =
    \<lparr>skl_skill = skill, skl_level = 0, skl_xp = 0, skl_accuracy = 0,
     skl_lastPracticed = Some now\<rparr>"

text \<open>
  The mutations of the skill entry, with the value returned. For a skill that the call
  creates the record is pushed first: the document keeps \<open>new_skill\<close>, and the value
  returned is computed on the local object.
\<close>

definition skill_attempt ::
  "string \<Rightarrow> rat \<Rightarrow> rat \<Rightarrow> int \<Rightarrow> skill_entry \<Rightarrow> skill_result \<times> skill_entry" where
  "skill_attempt skill xpGained accuracy now sp =
    (let sp1 = sp\<lparr>skl_xp := skl_xp sp + xpGained\<rparr>;
         sp2 = sp1\<lparr>skl_accuracy := (skl_accuracy sp1 + accuracy) / 2\<rparr>;
         sp3 = sp2\<lparr>skl_lastPracticed := Some now\<rparr>;
         newLevel = min (js_floor (skl_xp sp3 / 500)) 10
     in if newLevel > skl_level sp3
        then (LeveledUp skill newLevel, sp3\<lparr>skl_level := newLevel\<rparr>)
        else (NoLevelUp skill (skl_level sp3), sp3))"

definition updateSkillProgress ::
  "progress \<Rightarrow> string \<Rightarrow> rat \<Rightarrow> rat \<Rightarrow> int \<Rightarrow> skill_result \<times> progress" where
  "updateSkillProgress p skill xpGained accuracy now =
    (case List.find (\<lambda>sp. skl_skill sp = skill) (skillProgress p) of
       Some sp \<Rightarrow>
         (fst (skill_attempt skill xpGained accuracy now sp),
          p\<lparr>skillProgress :=
               update_first (\<lambda>sp. skl_skill sp = skill)
                 (\<lambda>sp. snd (skill_attempt skill xpGained accuracy now sp)) (skillProgress p)\<rparr>)
     | None \<Rightarrow>
         (fst (skill_attempt skill xpGained accuracy now (new_skill skill now)),
          p\<lparr>skillProgress := skillProgress p @ [new_skill skill now]\<rparr>))"

subsection \<open>Local time\<close>

text \<open>
  The rollups read the local calendar through \<open>setHours\<close>, \<open>getDay\<close>, \<open>getDate\<close>
  and the \<open>Date(year, month, day)\<close> constructor. The model takes the time zone as a
  fixed offset \<open>tz\<close>, in milliseconds, of local time from UTC. A local calendar day is
  numbered by its count of days since the epoch; day 0 was a Thursday, which \<open>getDay\<close>
  numbers 4. The constructor accepts a day of the month below 1 and steps back into the
  month before, so \<open>getDate() - getDay()\<close> needs no case for the start of a month.
\<close>

definition ms_per_day :: int where
  "ms_per_day = 1000 * 60 * 60 * 24"

definition local_day :: "int \<Rightarrow> int \<Rightarrow> int" where
  "local_day tz t = (t + tz) div ms_per_day"

definition local_midnight :: "int \<Rightarrow> int \<Rightarrow> int" where
  "local_midnight tz d = d * ms_per_day - tz"

definition getDay :: "int \<Rightarrow> int \<Rightarrow> int" where
  "getDay tz t = (local_day tz t + 4) mod 7"

subsection \<open>\<open>updateWeeklyProgress\<close>\<close>

definition updateWeeklyProgress ::
  "int \<Rightarrow> progress \<Rightarrow> rat \<Rightarrow> string \<Rightarrow> rat \<Rightarrow> int \<Rightarrow> progress" where
  "updateWeeklyProgress tz p xp activityType timeSpent now =
    (let weekStart = weekStartDate (weeklyGoals p);
         daysDiff = js_floor (of_int (now - weekStart) / (1000 * 60 * 60 * 24));
         wg1 = (if daysDiff \<ge> 7
                then (weeklyGoals p)
                       \<lparr>currentWeekXP := 0,
                        currentWeekLessons := 0,
                        currentWeekTime := 0,
                        weekStartDate := local_midnight tz (local_day tz now - getDay tz now)\<rparr>
                else weeklyGoals p);
         wg2 = wg1\<lparr>currentWeekXP := currentWeekXP wg1 + xp\<rparr>;
         wg3 = wg2\<lparr>currentWeekTime := currentWeekTime wg2 + timeSpent\<rparr>;
         wg4 = (if activityType = ''lesson''
                then wg3\<lparr>currentWeekLessons := currentWeekLessons wg3 + 1\<rparr> else wg3)
     in p\<lparr>weeklyGoals := wg4\<rparr>)"

subsection \<open>\<open>updateDailyProgress\<close>\<close>

text \<open>
  The activity counters of a day that \<open>find\<close> returned: an activity found is counted in
  place, a new one is pushed with count 0 and XP 0 and counted on the local object only.
  A day that the call creates is pushed first, so the document keeps the empty day.
\<close>

definition activity_count :: "string \<Rightarrow> rat \<Rightarrow> activity list \<Rightarrow> activity list" where
  "activity_count activityType xp acts =
    (let bump = (\<lambda>a. a\<lparr>act_count := act_count a + 1, act_xp := act_xp a + xp\<rparr>)
     in case List.find (\<lambda>a. act_type a = activityType) acts of
          Some _ \<Rightarrow> update_first (\<lambda>a. act_type a = activityType) bump acts
        | None \<Rightarrow> acts @ [\<lparr>act_type = activityType, act_count = 0, act_xp = 0\<rparr>])"

definition daily_attempt :: "rat \<Rightarrow> string \<Rightarrow> rat \<Rightarrow> daily_entry \<Rightarrow> daily_entry" where
  "daily_attempt xp activityType timeSpent dp =
    (let dp1 = dp\<lparr>day_xpEarned := day_xpEarned dp + xp\<rparr>;
         dp2 = dp1\<lparr>day_timeSpent := day_timeSpent dp1 + timeSpent\<rparr>;
         dp3 = (if activityType = ''lesson''
                then dp2\<lparr>day_lessonsCompleted := day_lessonsCompleted dp2 + 1\<rparr> else dp2)
     in dp3\<lparr>day_activitiesCompleted :=
              activity_count activityType xp (day_activitiesCompleted dp3)\<rparr>)"

definition updateDailyProgress ::
  "int \<Rightarrow> progress \<Rightarrow> rat \<Rightarrow> string \<Rightarrow> rat \<Rightarrow> int \<Rightarrow> progress" where
  "updateDailyProgress tz p xp activityType timeSpent now =
    (let today = local_midnight tz (local_day tz now);
         days =
           (case List.find (\<lambda>dp. day_date dp = today) (dailyProgress p) of
              Some _ \<Rightarrow>
                update_first (\<lambda>dp. day_date dp = today)
                  (daily_attempt xp activityType timeSpent) (dailyProgress p)
            | None \<Rightarrow>
                dailyProgress p
                  @ [\<lparr>day_date = today, day_xpEarned = 0, day_lessonsCompleted = 0,
                      day_timeSpent = 0, day_activitiesCompleted = []\<rparr>])
     in updateWeeklyProgress tz (p\<lparr>dailyProgress := days\<rparr>) xp activityType timeSpent now)"

section \<open>The practice handlers of \<open>src/routes/listening.js\<close>\<close>

text \<open>
  The two \<open>router.post('/practice')\<close> handlers, after validation. \<open>found\<close> is what
  \<open>Progress.findOne\<close> returned; the request body is grouped into the exercise data and
  the attempt data as the handler groups it. The handlers also credit the XP to the user
  document and write a feedback text and, for listening, the percentage of correct
  answers into the response; none of these reads or writes the document, and they are
  left out.
\<close>

text \<open>
  \<open>new Progress({ userId, language, skillProgress: [{ skill, level: 0, xp: 0, accuracy: 0 }] })\<close>
  with the defaults of the schema. The default of \<open>weekStartDate\<close> moves the clock
  reading back by \<open>getDay()\<close> days and keeps its time of day.
\<close>

definition new_Progress :: "int \<Rightarrow> string \<Rightarrow> string \<Rightarrow> string \<Rightarrow> int \<Rightarrow> progress" where
  "new_Progress tz uid lang skill now =
    \<lparr>userId = uid,
     language = lang,
     lessonProgress = [],
     speakingProgress = [],
     listeningProgress = [],
     skillProgress =
       [\<lparr>skl_skill = skill, skl_level = 0, skl_xp = 0, skl_accuracy = 0,
         skl_lastPracticed = None\<rparr>],
     vocabularyProgress = [],
     dailyProgress = [],
     weeklyGoals =
       \<lparr>xpTarget = 1000, lessonsTarget = 7, timeTarget = 210,
        currentWeekXP = 0, currentWeekLessons = 0, currentWeekTime = 0,
        weekStartDate = now - getDay tz now * ms_per_day\<rparr>,
     statistics =
       \<lparr>totalLessonsCompleted = 0, totalTimeSpent = 0, averageScore = 0, bestStreak = 0,
        wordsLearned = 0, perfectScores = 0, speakingExercisesCompleted = 0,
        listeningExercisesCompleted = 0, averageSpeakingScore = 0,
        averageListeningScore = 0\<rparr>\<rparr>"

record listening_response =
  lr_comprehensionScore :: rat
  lr_xpEarned :: rat
  lr_skillUpdate :: skill_result
  lr_newBestScore :: bool

definition listening_practice ::
  "int \<Rightarrow> progress option \<Rightarrow> string \<Rightarrow> string \<Rightarrow> listening_exercise_data
    \<Rightarrow> listening_attempt_data \<Rightarrow> int \<Rightarrow> listening_response \<times> progress" where
  "listening_practice tz found uid lang exerciseData attemptData now =
    (let exerciseId = lx_exerciseId exerciseData;
         comprehensionScore = ld_comprehensionScore attemptData;
         progress0 =
           (case found of Some p \<Rightarrow> p | None \<Rightarrow> new_Progress tz uid lang ''listening'' now);
         (result, progress1) = updateListeningProgress progress0 exerciseData attemptData now;
         baseXP = js_round (comprehensionScore / 10) + 5;
         completionBonus = js_round (ld_completionRate attemptData / 20);
         xpReward = baseXP + completionBonus;
         (skillUpdate, progress2) =
           updateSkillProgress progress1 ''listening'' xpReward comprehensionScore now;
         progress3 =
           updateDailyProgress tz progress2 xpReward ''listening''
             (js_round (ld_timeSpent attemptData / 60)) now
     in (\<lparr>lr_comprehensionScore = comprehensionScore,
          lr_xpEarned = xpReward,
          lr_skillUpdate = skillUpdate,
          lr_newBestScore =
            (newScore result
               > (case List.find (\<lambda>lp. lis_exerciseId lp = exerciseId)
                         (listeningProgress progress3) of
                    Some lp \<Rightarrow> lis_bestScore lp
                  | None \<Rightarrow> 0))\<rparr>,
         progress3))"

record speaking_response =
  sr_overallScore :: rat
  sr_xpEarned :: rat
  sr_skillUpdate :: skill_result
  sr_newBestScore :: bool

definition speaking_practice ::
  "int \<Rightarrow> progress option \<Rightarrow> string \<Rightarrow> string \<Rightarrow> speaking_exercise_data
    \<Rightarrow> speaking_attempt_data \<Rightarrow> int \<Rightarrow> speaking_response \<times> progress" where
  "speaking_practice tz found uid lang exerciseData attemptData now =
    (let exerciseId = sx_exerciseId exerciseData;
         progress0 =
           (case found of Some p \<Rightarrow> p | None \<Rightarrow> new_Progress tz uid lang ''speaking'' now);
         (result, progress1) = updateSpeakingProgress progress0 exerciseData attemptData now;
         overallScore =
           js_round ((sd_pronunciationScore attemptData + sd_fluencyScore attemptData
                      + sd_accuracyScore attemptData) / 3);
         xpReward = js_round (overallScore / 10) + 5;
         (skillUpdate, progress2) =
           updateSkillProgress progress1 ''speaking'' xpReward overallScore now;
         progress3 =
           updateDailyProgress tz progress2 xpReward ''speaking''
             (js_round (sd_recordingDuration attemptData / 60)) now
     in (\<lparr>sr_overallScore = overallScore,
          sr_xpEarned = xpReward,
          sr_skillUpdate = skillUpdate,
          sr_newBestScore =
            (newScore result
               > (case List.find (\<lambda>sp. spk_exerciseId sp = exerciseId)
                         (speakingProgress progress3) of
                    Some sp \<Rightarrow> spk_bestScore sp
                  | None \<Rightarrow> 0))\<rparr>,
         progress3))"

section \<open>Sequences of operations\<close>

text \<open>
  The ledger changes only through its methods. A run is a list of method calls, each
  with its arguments and its clock reading, applied in order to a document.
\<close>

datatype operation =
    Lesson string rat rat int
  | Speaking speaking_exercise_data speaking_attempt_data int
  | Listening listening_exercise_data listening_attempt_data int
  | Skill string rat rat int
  | Daily rat string rat int

fun apply_operation :: "int \<Rightarrow> progress \<Rightarrow> operation \<Rightarrow> progress" where
  "apply_operation tz p (Lesson lessonId score timeSpent now) =
     updateLessonProgress p lessonId score timeSpent now"
| "apply_operation tz p (Speaking exerciseData attemptData now) =
     snd (updateSpeakingProgress p exerciseData attemptData now)"
| "apply_operation tz p (Listening exerciseData attemptData now) =
     snd (updateListeningProgress p exerciseData attemptData now)"
| "apply_operation tz p (Skill skill xpGained accuracy now) =
     snd (updateSkillProgress p skill xpGained accuracy now)"
| "apply_operation tz p (Daily xp activityType timeSpent now) =
     updateDailyProgress tz p xp activityType timeSpent now"

definition run :: "int \<Rightarrow> progress \<Rightarrow> operation list \<Rightarrow> progress" where
  "run tz p ops = foldl (apply_operation tz) p ops"

section \<open>Entries by key\<close>

text \<open>
  The entry of a lesson, an exercise or a skill is the one the methods themselves work
  on: the first element of the array that \<open>find\<close> returns for the key.
\<close>

definition lesson_of :: "progress \<Rightarrow> string \<Rightarrow> lesson_entry option" where
  "lesson_of p l = List.find (\<lambda>lp. les_lessonId lp = l) (lessonProgress p)"

definition speaking_of :: "progress \<Rightarrow> string \<Rightarrow> speaking_entry option" where
  "speaking_of p e = List.find (\<lambda>sp. spk_exerciseId sp = e) (speakingProgress p)"

definition listening_of :: "progress \<Rightarrow> string \<Rightarrow> listening_entry option" where
  "listening_of p e = List.find (\<lambda>lp. lis_exerciseId lp = e) (listeningProgress p)"

definition skill_of :: "progress \<Rightarrow> string \<Rightarrow> skill_entry option" where
  "skill_of p s = List.find (\<lambda>sp. skl_skill sp = s) (skillProgress p)"

section \<open>The XP of a run\<close>

text \<open>The XP delta that an operation passes to \<open>updateSkillProgress\<close> for one skill.\<close>

fun skill_gain :: "string \<Rightarrow> operation \<Rightarrow> rat" where
  "skill_gain s (Skill skill xpGained accuracy now) = (if skill = s then xpGained else 0)"
| "skill_gain s _ = 0"

section \<open>Example requests\<close>

text \<open>
  The exercises and attempts of the worked scenarios: one speaking exercise \<open>e1\<close> with an
  attempt of given sub-scores, one listening exercise \<open>a1\<close> with an attempt of a given
  comprehension score.
\<close>

definition speaking_e1 :: speaking_exercise_data where
  "speaking_e1 =
    \<lparr>sx_exerciseId = ''e1'', sx_exerciseText = ''hello'', sx_category = ''daily'',
     sx_difficulty = ''beginner''\<rparr>"

definition speaking_scored :: "rat \<Rightarrow> rat \<Rightarrow> rat \<Rightarrow> speaking_attempt_data" where
  "speaking_scored pronunciation fluency accuracy =
    \<lparr>sd_pronunciationScore = pronunciation, sd_fluencyScore = fluency,
     sd_accuracyScore = accuracy, sd_recordingDuration = 12, sd_feedback = [],
     sd_improvements = []\<rparr>"

definition listening_a1 :: listening_exercise_data where
  "listening_a1 =
    \<lparr>lx_exerciseId = ''a1'', lx_audioTitle = ''news'', lx_audioUrl = ''/a1'',
     lx_transcript = ''text'', lx_category = ''news'', lx_difficulty = ''beginner'',
     lx_duration = 30\<rparr>"

definition listening_scored :: "rat \<Rightarrow> listening_attempt_data" where
  "listening_scored comprehension =
    \<lparr>ld_comprehensionScore = comprehension, ld_questionsAnswered = 4, ld_correctAnswers = 2,
     ld_timeSpent = 60, ld_completionRate = 100, ld_answers = [], ld_feedback = []\<rparr>"

section \<open>Arrays: finding and rewriting\<close>

lemma find_snoc:
  "List.find P (xs @ [y]) =
     (case List.find P xs of Some x \<Rightarrow> Some x | None \<Rightarrow> if P y then Some y else None)"
  by (induction xs) simp_all

text \<open>
  Rewriting the first element with key \<open>b\<close> by a function that keeps keys changes what
  \<open>find\<close> returns for \<open>b\<close> and for no other key.
\<close>

lemma find_update_first:
  assumes "\<And>x. k (f x) = k x"
  shows "List.find (\<lambda>x. k x = a) (update_first (\<lambda>x. k x = b) f xs) =
           (if a = b then map_option f (List.find (\<lambda>x. k x = a) xs)
            else List.find (\<lambda>x. k x = a) xs)"
  using assms by (induction xs) auto

lemma foldl_plus_sum_list:
  "foldl (\<lambda>s a. s + f a) acc xs = acc + sum_list (map f xs)"
  for acc :: rat
  by (induction xs arbitrary: acc) (simp_all add: add.assoc)

section \<open>What each method leaves alone\<close>

lemma lessonProgress_updateStatistics [simp]:
  "lessonProgress (updateStatistics p) = lessonProgress p"
  by (simp add: updateStatistics_def Let_def)

lemma speakingProgress_updateStatistics [simp]:
  "speakingProgress (updateStatistics p) = speakingProgress p"
  by (simp add: updateStatistics_def Let_def)

lemma listeningProgress_updateStatistics [simp]:
  "listeningProgress (updateStatistics p) = listeningProgress p"
  by (simp add: updateStatistics_def Let_def)

lemma skillProgress_updateStatistics [simp]:
  "skillProgress (updateStatistics p) = skillProgress p"
  by (simp add: updateStatistics_def Let_def)

lemma les_lessonId_lesson_attempt [simp]:
  "les_lessonId (lesson_attempt score timeSpent now lp) = les_lessonId lp"
  by (simp add: lesson_attempt_def Let_def)

lemma spk_exerciseId_speaking_attempt [simp]:
  "spk_exerciseId (speaking_attempt ad now sp) = spk_exerciseId sp"
  by (simp add: speaking_attempt_def Let_def)

lemma lis_exerciseId_listening_attempt [simp]:
  "lis_exerciseId (listening_attempt ad now lp) = lis_exerciseId lp"
  by (simp add: listening_attempt_def Let_def)

lemma skl_skill_skill_attempt [simp]:
  "skl_skill (snd (skill_attempt skill xpGained accuracy now sp)) = skl_skill sp"
  by (simp add: skill_attempt_def Let_def)

lemma speakingProgress_updateLessonProgress [simp]:
  "speakingProgress (updateLessonProgress p l score timeSpent now) = speakingProgress p"
  by (simp add: updateLessonProgress_def split: option.splits)

lemma listeningProgress_updateLessonProgress [simp]:
  "listeningProgress (updateLessonProgress p l score timeSpent now) = listeningProgress p"
  by (simp add: updateLessonProgress_def split: option.splits)

lemma skillProgress_updateLessonProgress [simp]:
  "skillProgress (updateLessonProgress p l score timeSpent now) = skillProgress p"
  by (simp add: updateLessonProgress_def split: option.splits)

lemma listeningProgress_updateSpeakingProgress [simp]:
  "listeningProgress (snd (updateSpeakingProgress p ed ad now)) = listeningProgress p"
  by (simp add: updateSpeakingProgress_def Let_def)

lemma skillProgress_updateSpeakingProgress [simp]:
  "skillProgress (snd (updateSpeakingProgress p ed ad now)) = skillProgress p"
  by (simp add: updateSpeakingProgress_def Let_def)

lemma speakingProgress_updateListeningProgress [simp]:
  "speakingProgress (snd (updateListeningProgress p ed ad now)) = speakingProgress p"
  by (simp add: updateListeningProgress_def Let_def)

lemma skillProgress_updateListeningProgress [simp]:
  "skillProgress (snd (updateListeningProgress p ed ad now)) = skillProgress p"
  by (simp add: updateListeningProgress_def Let_def)

lemma speakingProgress_updateSkillProgress [simp]:
  "speakingProgress (snd (updateSkillProgress p s xpGained accuracy now)) = speakingProgress p"
  by (simp add: updateSkillProgress_def split: option.splits)

lemma listeningProgress_updateSkillProgress [simp]:
  "listeningProgress (snd (updateSkillProgress p s xpGained accuracy now)) = listeningProgress p"
  by (simp add: updateSkillProgress_def split: option.splits)

lemma speakingProgress_updateDailyProgress [simp]:
  "speakingProgress (updateDailyProgress tz p xp ty timeSpent now) = speakingProgress p"
  by (simp add: updateDailyProgress_def updateWeeklyProgress_def Let_def)

lemma listeningProgress_updateDailyProgress [simp]:
  "listeningProgress (updateDailyProgress tz p xp ty timeSpent now) = listeningProgress p"
  by (simp add: updateDailyProgress_def updateWeeklyProgress_def Let_def)

lemma skillProgress_updateDailyProgress [simp]:
  "skillProgress (updateDailyProgress tz p xp ty timeSpent now) = skillProgress p"
  by (simp add: updateDailyProgress_def updateWeeklyProgress_def Let_def)

lemma run_Cons: "run tz p (op # ops) = run tz (apply_operation tz p op) ops"
  by (simp add: run_def)

section \<open>Lessons\<close>

lemma lesson_of_update:
  "lesson_of (updateLessonProgress p l score timeSpent now) l' =
     (if l = l'
      then Some (case lesson_of p l of
                   Some lp \<Rightarrow> lesson_attempt score timeSpent now lp
                 | None \<Rightarrow> new_lesson l score timeSpent now)
      else lesson_of p l')"
  by (auto simp: lesson_of_def updateLessonProgress_def find_snoc
        find_update_first [where k = les_lessonId] new_lesson_def
      split: option.splits)

text \<open>
  Claim C3. After \<open>updateLessonProgress\<close> the lesson has an entry; its attempt count is one
  more than before (1 for a lesson seen for the first time); its status is \<open>mastered\<close>
  exactly when the score is at least 90 and that count is at least 2, \<open>completed\<close> when
  the score is at least 70 and the lesson is not mastered, and \<open>in_progress\<close> otherwise.
  On a new document a first attempt of 95 gives \<open>completed\<close> and a second attempt of 92
  then gives \<open>mastered\<close>.
\<close>

theorem lesson_status_rule:
  "(\<exists>lp. lesson_of (updateLessonProgress p lessonId score timeSpent now) lessonId = Some lp
      \<and> les_attempts lp
          = (case lesson_of p lessonId of Some old \<Rightarrow> les_attempts old + 1 | None \<Rightarrow> 1)
      \<and> les_status lp
          = (if score \<ge> 90 \<and> les_attempts lp \<ge> 2 then mastered
             else if score \<ge> 70 then completed else in_progress))
   \<and> map_option les_status
        (lesson_of (updateLessonProgress (new_Progress 0 ''u'' ''en'' ''speaking'' 0)
           ''l1'' 95 10 1) ''l1'') = Some completed
   \<and> map_option les_status
        (lesson_of (updateLessonProgress (updateLessonProgress
           (new_Progress 0 ''u'' ''en'' ''speaking'' 0) ''l1'' 95 10 1) ''l1'' 92 10 2) ''l1'')
        = Some mastered"
proof (intro conjI)
  show "\<exists>lp. lesson_of (updateLessonProgress p lessonId score timeSpent now) lessonId = Some lp
      \<and> les_attempts lp
          = (case lesson_of p lessonId of Some old \<Rightarrow> les_attempts old + 1 | None \<Rightarrow> 1)
      \<and> les_status lp
          = (if score \<ge> 90 \<and> les_attempts lp \<ge> 2 then mastered
             else if score \<ge> 70 then completed else in_progress)"
    by (cases "lesson_of p lessonId")
       (simp_all add: lesson_of_update lesson_attempt_def new_lesson_def Let_def)
next
  show "map_option les_status
        (lesson_of (updateLessonProgress (new_Progress 0 ''u'' ''en'' ''speaking'' 0)
           ''l1'' 95 10 1) ''l1'') = Some completed"
    by code_simp
next
  show "map_option les_status
        (lesson_of (updateLessonProgress (updateLessonProgress
           (new_Progress 0 ''u'' ''en'' ''speaking'' 0) ''l1'' 95 10 1) ''l1'' 92 10 2) ''l1'')
        = Some mastered"
    by code_simp
qed

theorem lesson_status_rule_witness:
  "\<exists>lp. lesson_of (updateLessonProgress (new_Progress 0 ''u'' ''en'' ''speaking'' 0)
            ''l1'' 65 10 1) ''l1'' = Some lp
      \<and> les_attempts lp = 1 \<and> les_status lp = in_progress"
proof -
  have "lesson_of (new_Progress 0 ''u'' ''en'' ''speaking'' 0) ''l1'' = None"
    by code_simp
  with lesson_status_rule [of "new_Progress 0 ''u'' ''en'' ''speaking'' 0" "''l1''" 65 10 1]
  show ?thesis by simp
qed

section \<open>Speaking, listening and skill entries after one call\<close>

text \<open>
  After a call the exercise or skill of the call has an entry: the old one with the
  mutations of the call when there was one, the new one as it was pushed otherwise.
\<close>

lemma speaking_of_update:
  "speaking_of (snd (updateSpeakingProgress p ed ad now)) e =
     (if sx_exerciseId ed = e
      then Some (case speaking_of p e of
                   Some sp \<Rightarrow> speaking_attempt ad now sp
                 | None \<Rightarrow> new_speaking ed now)
      else speaking_of p e)"
  by (auto simp: speaking_of_def updateSpeakingProgress_def Let_def find_snoc
        find_update_first [where k = spk_exerciseId] new_speaking_def
      split: option.splits)

lemma listening_of_update:
  "listening_of (snd (updateListeningProgress p ed ad now)) e =
     (if lx_exerciseId ed = e
      then Some (case listening_of p e of
                   Some lp \<Rightarrow> listening_attempt ad now lp
                 | None \<Rightarrow> new_listening ed now)
      else listening_of p e)"
  by (auto simp: listening_of_def updateListeningProgress_def Let_def find_snoc
        find_update_first [where k = lis_exerciseId] new_listening_def
      split: option.splits)

lemma skill_of_update:
  "skill_of (snd (updateSkillProgress p s xpGained accuracy now)) s' =
     (if s = s'
      then Some (case skill_of p s of
                   Some sp \<Rightarrow> snd (skill_attempt s xpGained accuracy now sp)
                 | None \<Rightarrow> new_skill s now)
      else skill_of p s')"
  by (auto simp: skill_of_def updateSkillProgress_def Let_def find_snoc
        find_update_first [where k = skl_skill] new_skill_def
      split: option.splits)

lemma fst_updateSkillProgress:
  "fst (updateSkillProgress p s xpGained accuracy now) =
     fst (skill_attempt s xpGained accuracy now
            (case skill_of p s of Some sp \<Rightarrow> sp | None \<Rightarrow> new_skill s now))"
  by (simp add: skill_of_def updateSkillProgress_def split: option.splits)

lemma fst_updateSpeakingProgress:
  "fst (updateSpeakingProgress p ed ad now) = \<lparr>leveledUp = False, newScore = speaking_overall ad\<rparr>"
  by (simp add: updateSpeakingProgress_def Let_def)

lemma fst_updateListeningProgress:
  "fst (updateListeningProgress p ed ad now)
     = \<lparr>leveledUp = False, newScore = ld_comprehensionScore ad\<rparr>"
  by (simp add: updateListeningProgress_def Let_def)

section \<open>Speaking attempts\<close>

text \<open>
  Claim C4 does not hold of the code for the first attempt on an exercise. The value
  returned as \<open>newScore\<close> is the rounded mean of the three sub-scores for every call, 80 for
  (90, 80, 70). But on a document without an entry for the exercise the method pushes the
  new entry and then records the attempt on its local object: the document keeps the
  entry as pushed, without the attempt and with \<open>isCompleted\<close> false. The same attempt
  made again, now on the stored entry, sets the flag.
\<close>

theorem speaking_first_attempt_not_completed:
  "newScore (fst (updateSpeakingProgress p exerciseData attemptData now))
     = js_round ((sd_pronunciationScore attemptData + sd_fluencyScore attemptData
                  + sd_accuracyScore attemptData) / 3)
   \<and> fst (updateSpeakingProgress (new_Progress 0 ''u'' ''en'' ''speaking'' 0)
        speaking_e1 (speaking_scored 90 80 70) 1)
       = \<lparr>leveledUp = False, newScore = 80\<rparr>
   \<and> speaking_of (snd (updateSpeakingProgress (new_Progress 0 ''u'' ''en'' ''speaking'' 0)
        speaking_e1 (speaking_scored 90 80 70) 1)) ''e1''
       = Some \<lparr>spk_exerciseId = ''e1'', spk_exerciseText = ''hello'', spk_category = ''daily'',
               spk_difficulty = ''beginner'', spk_attempts = [], spk_bestScore = 0,
               spk_totalAttempts = 0, spk_averageScore = 0, spk_lastPracticed = Some 1,
               spk_isCompleted = False\<rparr>
   \<and> map_option spk_isCompleted
        (speaking_of (run 0 (new_Progress 0 ''u'' ''en'' ''speaking'' 0)
           [Speaking speaking_e1 (speaking_scored 90 80 70) 1,
            Speaking speaking_e1 (speaking_scored 90 80 70) 2]) ''e1'')
       = Some True"
proof (intro conjI)
  show "newScore (fst (updateSpeakingProgress p exerciseData attemptData now))
     = js_round ((sd_pronunciationScore attemptData + sd_fluencyScore attemptData
                  + sd_accuracyScore attemptData) / 3)"
    by (simp add: fst_updateSpeakingProgress speaking_overall_def)
qed (code_simp+)

section \<open>Attempt summaries\<close>

text \<open>
  Claim C2 does not hold of the code. The first attempt on an exercise is recorded on the
  local object after the new entry has been pushed, so it is missing from the stored
  entry. After speaking attempts scoring 80 and then 60 on a new exercise the entry holds
  \<open>bestScore\<close> 60, \<open>averageScore\<close> 60, \<open>totalAttempts\<close> 1 and a log of one attempt, where
  the claim gives 80, 70 and 2. After listening attempts scoring 80 and then 55 it holds
  55, 55 and 1, where the claim gives 80, 68 and 2.
\<close>

theorem first_attempt_missing_from_summary:
  "map_option spk_bestScore
      (speaking_of (run 0 (new_Progress 0 ''u'' ''en'' ''speaking'' 0)
         [Speaking speaking_e1 (speaking_scored 90 80 70) 1,
          Speaking speaking_e1 (speaking_scored 60 61 60) 2]) ''e1'') = Some 60
   \<and> map_option spk_averageScore
      (speaking_of (run 0 (new_Progress 0 ''u'' ''en'' ''speaking'' 0)
         [Speaking speaking_e1 (speaking_scored 90 80 70) 1,
          Speaking speaking_e1 (speaking_scored 60 61 60) 2]) ''e1'') = Some 60
   \<and> map_option spk_totalAttempts
      (speaking_of (run 0 (new_Progress 0 ''u'' ''en'' ''speaking'' 0)
         [Speaking speaking_e1 (speaking_scored 90 80 70) 1,
          Speaking speaking_e1 (speaking_scored 60 61 60) 2]) ''e1'') = Some 1
   \<and> map_option (\<lambda>sp. map sa_overallScore (spk_attempts sp))
      (speaking_of (run 0 (new_Progress 0 ''u'' ''en'' ''speaking'' 0)
         [Speaking speaking_e1 (speaking_scored 90 80 70) 1,
          Speaking speaking_e1 (speaking_scored 60 61 60) 2]) ''e1'') = Some [60]
   \<and> map_option lis_bestScore
      (listening_of (run 0 (new_Progress 0 ''u'' ''en'' ''listening'' 0)
         [Listening listening_a1 (listening_scored 80) 1,
          Listening listening_a1 (listening_scored 55) 2]) ''a1'') = Some 55
   \<and> map_option lis_averageScore
      (listening_of (run 0 (new_Progress 0 ''u'' ''en'' ''listening'' 0)
         [Listening listening_a1 (listening_scored 80) 1,
          Listening listening_a1 (listening_scored 55) 2]) ''a1'') = Some 55
   \<and> map_option lis_totalAttempts
      (listening_of (run 0 (new_Progress 0 ''u'' ''en'' ''listening'' 0)
         [Listening listening_a1 (listening_scored 80) 1,
          Listening listening_a1 (listening_scored 55) 2]) ''a1'') = Some 1
   \<and> map_option (\<lambda>lp. map la_comprehensionScore (lis_attempts lp))
      (listening_of (run 0 (new_Progress 0 ''u'' ''en'' ''listening'' 0)
         [Listening listening_a1 (listening_scored 80) 1,
          Listening listening_a1 (listening_scored 55) 2]) ''a1'') = Some [55]"
  by (intro conjI) code_simp+

section \<open>Skills\<close>

text \<open>
  Claim C10. After \<open>updateSkillProgress\<close> the skill has a record whose level is at least
  the level stored before the call, whatever the sign of the XP delta: for a skill that
  had a record, the stored level is the recomputed level when that is strictly greater and
  the old level otherwise; for a skill that the call creates, nothing was stored before
  and the record is stored with level 0.
\<close>

theorem skill_level_never_drops:
  "\<exists>sp. skill_of (snd (updateSkillProgress p skill xpGained accuracy now)) skill = Some sp
     \<and> (case skill_of p skill of
          Some old \<Rightarrow>
            skl_level old \<le> skl_level sp
            \<and> skl_level sp
                = (let newLevel = min (js_floor ((skl_xp old + xpGained) / 500)) 10
                   in if newLevel > skl_level old then newLevel else skl_level old)
        | None \<Rightarrow> skl_level sp = 0)"
  by (cases "skill_of p skill")
     (simp_all add: skill_of_update skill_attempt_def new_skill_def Let_def)

theorem skill_level_never_drops_witness:
  "\<exists>sp. skill_of (snd (updateSkillProgress
            (snd (updateSkillProgress (new_Progress 0 ''u'' ''en'' ''speaking'' 0)
                    ''speaking'' 1200 80 1))
            ''speaking'' (- 1000) 80 2)) ''speaking'' = Some sp
     \<and> skl_level sp = 2"
proof -
  have a: "skill_of (snd (updateSkillProgress (new_Progress 0 ''u'' ''en'' ''speaking'' 0)
                    ''speaking'' 1200 80 1)) ''speaking''
           = Some \<lparr>skl_skill = ''speaking'', skl_level = 2, skl_xp = 1200, skl_accuracy = 40,
               skl_lastPracticed = Some 1\<rparr>"
    by code_simp
  have b: "js_floor (2 / 5) = 0"
    by code_simp
  from skill_level_never_drops [of
      "snd (updateSkillProgress (new_Progress 0 ''u'' ''en'' ''speaking'' 0)
              ''speaking'' 1200 80 1)" "''speaking''" "- 1000" 80 2]
  show ?thesis by (auto simp: a b Let_def)
qed



section \<open>The level of a skill\<close>

lemma level_formula_mono:
  "x \<le> y \<Longrightarrow> min (js_floor (x / 500)) 10 \<le> min (js_floor (y / 500)) 10"
proof -
  assume "x \<le> y"
  then have "x / 500 \<le> y / 500"
    by simp
  then have "js_floor (x / 500) \<le> js_floor (y / 500)"
    unfolding js_floor_def by (simp add: floor_mono)
  then show ?thesis
    by (simp add: min_le_iff_disj)
qed

lemma skl_xp_skill_attempt:
  "skl_xp (snd (skill_attempt s xpGained accuracy now sp)) = skl_xp sp + xpGained"
  by (simp add: skill_attempt_def Let_def)

lemma skill_attempt_keeps_formula:
  assumes "skl_level sp = min (js_floor (skl_xp sp / 500)) 10" and "0 \<le> xpGained"
  shows "skl_level (snd (skill_attempt s xpGained accuracy now sp))
           = min (js_floor (skl_xp (snd (skill_attempt s xpGained accuracy now sp)) / 500)) 10"
proof -
  from assms(2) have "skl_xp sp \<le> skl_xp sp + xpGained"
    by simp
  then have "skl_level sp \<le> min (js_floor ((skl_xp sp + xpGained) / 500)) 10"
    unfolding assms(1) by (rule level_formula_mono)
  then show ?thesis
    by (auto simp: skill_attempt_def Let_def)
qed

text \<open>One operation on a document in which the skill has a record that fits the formula.\<close>

lemma skill_formula_apply:
  assumes "skill_of p s = Some sp0"
    and "skl_level sp0 = min (js_floor (skl_xp sp0 / 500)) 10"
    and "0 \<le> skill_gain s op"
  shows "\<exists>sp. skill_of (apply_operation tz p op) s = Some sp
           \<and> skl_xp sp = skl_xp sp0 + skill_gain s op
           \<and> skl_level sp = min (js_floor (skl_xp sp / 500)) 10"
proof (cases op)
  case (Skill skill xpGained accuracy now)
  show ?thesis
  proof (cases "skill = s")
    case True
    with assms(3) Skill have "0 \<le> xpGained"
      by simp
    with assms(1,2) Skill True show ?thesis
      by (simp add: skill_of_update skl_xp_skill_attempt skill_attempt_keeps_formula)
  next
    case False
    with assms(1,2) Skill show ?thesis
      by (simp add: skill_of_update)
  qed
qed (use assms(1,2) in \<open>simp_all add: skill_of_def\<close>)

lemma skill_formula_run:
  assumes "skill_of p s = Some sp0"
    and "skl_level sp0 = min (js_floor (skl_xp sp0 / 500)) 10"
    and "\<forall>op\<in>set ops. 0 \<le> skill_gain s op"
  shows "\<exists>sp. skill_of (run tz p ops) s = Some sp
           \<and> skl_xp sp = skl_xp sp0 + sum_list (map (skill_gain s) ops)
           \<and> skl_level sp = min (js_floor (skl_xp sp / 500)) 10"
  using assms
proof (induction ops arbitrary: p sp0)
  case Nil
  then show ?case by (simp add: run_def)
next
  case (Cons op ops)
  from Cons.prems have "0 \<le> skill_gain s op"
    by simp
  with Cons.prems(1,2) obtain sp1 where sp1: "skill_of (apply_operation tz p op) s = Some sp1"
    and xp1: "skl_xp sp1 = skl_xp sp0 + skill_gain s op"
    and level1: "skl_level sp1 = min (js_floor (skl_xp sp1 / 500)) 10"
    using skill_formula_apply by blast
  from Cons.prems(3) have "\<forall>op\<in>set ops. 0 \<le> skill_gain s op"
    by simp
  with Cons.IH [OF sp1 level1] obtain sp
    where "skill_of (run tz (apply_operation tz p op) ops) s = Some sp"
      and "skl_xp sp = skl_xp sp1 + sum_list (map (skill_gain s) ops)"
      and "skl_level sp = min (js_floor (skl_xp sp / 500)) 10"
    by blast
  with xp1 show ?case
    by (simp add: run_Cons add.assoc)
qed

text \<open>
  Claim C5, as stated, fails when an XP delta is negative: on the record of a new
  document, +500 and then -500 leave 0 XP and the stored level 1, where the formula
  gives 0.
\<close>

theorem skill_level_formula_counterexample:
  "skill_of (run 0 (new_Progress 0 ''u'' ''en'' ''speaking'' 0)
       [Skill ''speaking'' 500 80 1, Skill ''speaking'' (- 500) 80 2]) ''speaking''
     = Some \<lparr>skl_skill = ''speaking'', skl_level = 1, skl_xp = 0, skl_accuracy = 60,
             skl_lastPracticed = Some 2\<rparr>
   \<and> min (js_floor (0 / 500)) 10 = 0"
  by code_simp

text \<open>
  Claim C5, amended. Take a document in which the skill has a record whose level equals
  \<open>min(floor(xp / 500), 10)\<close>, and any run of methods in which every XP delta for the
  skill is at least 0. After the run the stored XP of the skill is the XP stored before
  plus the sum of the deltas, and the stored level equals \<open>min(floor(xp / 500), 10)\<close> of
  that XP. The function is monotonic and at most 10. \<open>updateSkillProgress\<close> reports a
  level-up, with the new level, exactly when the newly computed level exceeds the level
  before the call (0 for a skill that the call creates), and the unchanged level otherwise.
\<close>

theorem skill_level_formula:
  "(skill_of p s = Some sp0
     \<and> skl_level sp0 = min (js_floor (skl_xp sp0 / 500)) 10
     \<and> (\<forall>op\<in>set ops. 0 \<le> skill_gain s op) \<longrightarrow>
    (\<exists>sp. skill_of (run tz p ops) s = Some sp
       \<and> skl_xp sp = skl_xp sp0 + sum_list (map (skill_gain s) ops)
       \<and> skl_level sp = min (js_floor (skl_xp sp / 500)) 10))
   \<and> (x \<le> y \<longrightarrow> min (js_floor (x / 500)) 10 \<le> min (js_floor (y / 500)) 10)
   \<and> min (js_floor (x / 500)) 10 \<le> 10
   \<and> fst (updateSkillProgress p s xpGained accuracy now)
       = (let old = (case skill_of p s of Some sp \<Rightarrow> sp | None \<Rightarrow> new_skill s now);
              newLevel = min (js_floor ((skl_xp old + xpGained) / 500)) 10
          in if newLevel > skl_level old then LeveledUp s newLevel
             else NoLevelUp s (skl_level old))"
proof (intro conjI impI)
  assume "skill_of p s = Some sp0
     \<and> skl_level sp0 = min (js_floor (skl_xp sp0 / 500)) 10
     \<and> (\<forall>op\<in>set ops. 0 \<le> skill_gain s op)"
  then show "\<exists>sp. skill_of (run tz p ops) s = Some sp
       \<and> skl_xp sp = skl_xp sp0 + sum_list (map (skill_gain s) ops)
       \<and> skl_level sp = min (js_floor (skl_xp sp / 500)) 10"
    using skill_formula_run by blast
next
  assume "x \<le> y"
  then show "min (js_floor (x / 500)) 10 \<le> min (js_floor (y / 500)) 10"
    by (rule level_formula_mono)
next
  show "min (js_floor (x / 500)) 10 \<le> 10"
    by simp
next
  show "fst (updateSkillProgress p s xpGained accuracy now)
       = (let old = (case skill_of p s of Some sp \<Rightarrow> sp | None \<Rightarrow> new_skill s now);
              newLevel = min (js_floor ((skl_xp old + xpGained) / 500)) 10
          in if newLevel > skl_level old then LeveledUp s newLevel
             else NoLevelUp s (skl_level old))"
    by (simp add: fst_updateSkillProgress skill_attempt_def Let_def)
qed

theorem skill_level_formula_witness:
  "\<exists>sp. skill_of (run 0 (new_Progress 0 ''u'' ''en'' ''speaking'' 0)
       [Skill ''speaking'' 100 80 1, Skill ''speaking'' 150 80 2, Skill ''speaking'' 260 80 3,
        Lesson ''l1'' 95 10 4, Skill ''listening'' 700 80 5, Skill ''speaking'' 500 80 6])
       ''speaking'' = Some sp
     \<and> skl_xp sp = 1010 \<and> skl_level sp = 2"
  (is "\<exists>sp. skill_of (run 0 ?p ?ops) ''speaking'' = Some sp \<and> _")
proof -
  let ?sp0 = "\<lparr>skl_skill = ''speaking'', skl_level = 0, skl_xp = 0, skl_accuracy = 0,
               skl_lastPracticed = None\<rparr>"
  have start: "skill_of ?p ''speaking'' = Some ?sp0"
    and fits: "skl_level ?sp0 = min (js_floor (skl_xp ?sp0 / 500)) 10"
    by code_simp+
  have gains: "\<forall>op\<in>set ?ops. 0 \<le> skill_gain ''speaking'' op"
    by simp
  have total: "skl_xp ?sp0 + sum_list (map (skill_gain ''speaking'') ?ops) = 1010"
    by simp
  have level: "min (js_floor (1010 / 500)) 10 = 2"
    by code_simp
  from skill_level_formula [where p = ?p and s = "''speaking''" and ops = ?ops and tz = 0
      and ?sp0.0 = ?sp0, THEN conjunct1] start fits gains
  obtain sp where "skill_of (run 0 ?p ?ops) ''speaking'' = Some sp"
    and "skl_xp sp = skl_xp ?sp0 + sum_list (map (skill_gain ''speaking'') ?ops)"
    and "skl_level sp = min (js_floor (skl_xp sp / 500)) 10"
    by blast
  with total level show ?thesis
    by (simp only:) blast
qed

section \<open>The completion flag\<close>

lemma speaking_attempt_keeps_flag:
  "spk_isCompleted sp \<Longrightarrow> spk_isCompleted (speaking_attempt ad now sp)"
  by (simp add: speaking_attempt_def Let_def)

lemma listening_attempt_keeps_flag:
  "lis_isCompleted lp \<Longrightarrow> lis_isCompleted (listening_attempt ad now lp)"
  by (simp add: listening_attempt_def Let_def)

lemma speaking_flag_apply:
  assumes "map_option spk_isCompleted (speaking_of p e) = Some True"
  shows "map_option spk_isCompleted (speaking_of (apply_operation tz p op) e) = Some True"
proof (cases op)
  case (Speaking ed ad now)
  with assms show ?thesis
    by (auto simp: speaking_of_update speaking_attempt_keeps_flag)
qed (use assms in \<open>simp_all add: speaking_of_def\<close>)

lemma listening_flag_apply:
  assumes "map_option lis_isCompleted (listening_of p e) = Some True"
  shows "map_option lis_isCompleted (listening_of (apply_operation tz p op) e) = Some True"
proof (cases op)
  case (Listening ed ad now)
  with assms show ?thesis
    by (auto simp: listening_of_update listening_attempt_keeps_flag)
qed (use assms in \<open>simp_all add: listening_of_def\<close>)

lemma speaking_flag_run:
  "map_option spk_isCompleted (speaking_of p e) = Some True
   \<Longrightarrow> map_option spk_isCompleted (speaking_of (run tz p ops) e) = Some True"
  by (induction ops rule: rev_induct) (simp_all add: run_def speaking_flag_apply)

lemma listening_flag_run:
  "map_option lis_isCompleted (listening_of p e) = Some True
   \<Longrightarrow> map_option lis_isCompleted (listening_of (run tz p ops) e) = Some True"
  by (induction ops rule: rev_induct) (simp_all add: run_def listening_flag_apply)

text \<open>
  Claim C9. Once the entry of a speaking or listening exercise has \<open>isCompleted\<close> true, it
  has it true after every further run of methods on the document, whatever the scores of
  later attempts; and an attempt that scores at least 80 on an exercise that has an entry
  leaves the flag true.
\<close>

theorem completion_is_sticky:
  "(map_option spk_isCompleted (speaking_of p e) = Some True \<longrightarrow>
      map_option spk_isCompleted (speaking_of (run tz p ops) e) = Some True)
   \<and> (map_option lis_isCompleted (listening_of p e) = Some True \<longrightarrow>
      map_option lis_isCompleted (listening_of (run tz p ops) e) = Some True)
   \<and> (speaking_of p (sx_exerciseId sed) \<noteq> None \<and> speaking_overall sad \<ge> 80 \<longrightarrow>
      map_option spk_isCompleted
        (speaking_of (snd (updateSpeakingProgress p sed sad now)) (sx_exerciseId sed))
        = Some True)
   \<and> (listening_of p (lx_exerciseId led) \<noteq> None \<and> ld_comprehensionScore lad \<ge> 80 \<longrightarrow>
      map_option lis_isCompleted
        (listening_of (snd (updateListeningProgress p led lad now)) (lx_exerciseId led))
        = Some True)"
  by (auto simp: speaking_flag_run listening_flag_run speaking_of_update listening_of_update
        speaking_attempt_def listening_attempt_def Let_def)

theorem completion_is_sticky_witness:
  "map_option spk_isCompleted (speaking_of
     (run 0
        (snd (updateSpeakingProgress
           (snd (updateSpeakingProgress (new_Progress 0 ''u'' ''en'' ''speaking'' 0)
              speaking_e1 (speaking_scored 50 50 50) 1))
           speaking_e1 (speaking_scored 90 80 70) 2))
        [Speaking speaking_e1 (speaking_scored 10 20 30) 3, Lesson ''l1'' 40 10 4])
     ''e1'') = Some True
   \<and> map_option lis_isCompleted (listening_of
     (run 0
        (snd (updateListeningProgress
           (snd (updateListeningProgress (new_Progress 0 ''u'' ''en'' ''listening'' 0)
              listening_a1 (listening_scored 50) 1))
           listening_a1 (listening_scored 85) 2))
        [Listening listening_a1 (listening_scored 20) 3])
     ''a1'') = Some True"
  (is "map_option spk_isCompleted (speaking_of
         (run 0 (snd (updateSpeakingProgress ?p1 speaking_e1 ?sad 2)) ?sops) ''e1'') = Some True
       \<and> map_option lis_isCompleted (listening_of
         (run 0 (snd (updateListeningProgress ?q1 listening_a1 ?lad 2)) ?lops) ''a1'')
           = Some True")
proof -
  have ids: "sx_exerciseId speaking_e1 = ''e1''" "lx_exerciseId listening_a1 = ''a1''"
    by (simp_all add: speaking_e1_def listening_a1_def)
  have stored: "speaking_of ?p1 ''e1'' \<noteq> None" "listening_of ?q1 ''a1'' \<noteq> None"
    by code_simp+
  have high: "speaking_overall ?sad \<ge> 80" "ld_comprehensionScore ?lad \<ge> 80"
    by code_simp+
  from completion_is_sticky [where p = ?p1 and sad = ?sad and sed = speaking_e1 and now = 2]
    stored(1) high(1)
  have "map_option spk_isCompleted
          (speaking_of (snd (updateSpeakingProgress ?p1 speaking_e1 ?sad 2)) ''e1'') = Some True"
    by (simp add: ids)
  with completion_is_sticky
    [where p = "snd (updateSpeakingProgress ?p1 speaking_e1 ?sad 2)" and e = "''e1''"
       and tz = 0 and ops = ?sops]
  have speaking: "map_option spk_isCompleted (speaking_of
         (run 0 (snd (updateSpeakingProgress ?p1 speaking_e1 ?sad 2)) ?sops) ''e1'') = Some True"
    by blast
  from completion_is_sticky [where p = ?q1 and lad = ?lad and led = listening_a1 and now = 2]
    stored(2) high(2)
  have "map_option lis_isCompleted
          (listening_of (snd (updateListeningProgress ?q1 listening_a1 ?lad 2)) ''a1'')
            = Some True"
    by (simp add: ids)
  with completion_is_sticky
    [where p = "snd (updateListeningProgress ?q1 listening_a1 ?lad 2)" and e = "''a1''"
       and tz = 0 and ops = ?lops]
  have "map_option lis_isCompleted (listening_of
         (run 0 (snd (updateListeningProgress ?q1 listening_a1 ?lad 2)) ?lops) ''a1'')
           = Some True"
    by blast
  with speaking show ?thesis by blast
qed

section \<open>The weekly rollup\<close>

lemma days_diff_ge_7:
  "7 \<le> js_floor (of_int d / (1000 * 60 * 60 * 24)) \<longleftrightarrow> 7 * ms_per_day \<le> d"
proof -
  have "7 \<le> js_floor (of_int d / (1000 * 60 * 60 * 24))
          \<longleftrightarrow> (7::int) \<le> \<lfloor>(of_int d :: rat) / (1000 * 60 * 60 * 24)\<rfloor>"
    unfolding js_floor_def by linarith
  also have "\<dots> \<longleftrightarrow> (of_int 7 :: rat) \<le> of_int d / (1000 * 60 * 60 * 24)"
    by (rule le_floor_iff)
  also have "\<dots> \<longleftrightarrow> (of_int (7 * ms_per_day) :: rat) \<le> of_int d"
    by (simp add: ms_per_day_def field_simps)
  also have "\<dots> \<longleftrightarrow> 7 * ms_per_day \<le> d"
    by (simp only: of_int_le_iff)
  finally show ?thesis .
qed

lemma sunday_anchor:
  fixes tz now :: int
  defines "anchor \<equiv> local_midnight tz (local_day tz now - getDay tz now)"
  shows "getDay tz anchor = 0"
    and "(anchor + tz) mod ms_per_day = 0"
    and "anchor \<le> now"
    and "now - anchor < 7 * ms_per_day"
proof -
  define D where "D = (now + tz) div ms_per_day"
  define w where "w = (D + 4) mod 7"
  have ms: "ms_per_day = 86400000"
    by (simp add: ms_per_day_def)
  have anchor: "anchor + tz = (D - w) * ms_per_day"
    by (simp add: anchor_def local_midnight_def local_day_def getDay_def D_def w_def)
  have w: "0 \<le> w" "w < 7"
    by (simp_all add: w_def)
  have day: "local_day tz anchor = D - w"
    unfolding local_day_def anchor by (simp add: ms)
  show "getDay tz anchor = 0"
    unfolding getDay_def day w_def by presburger
  show "(anchor + tz) mod ms_per_day = 0"
    unfolding anchor by simp
  have pos: "0 < ms_per_day"
    by (simp add: ms)
  have split: "now + tz = D * ms_per_day + (now + tz) mod ms_per_day"
    unfolding D_def by simp
  have "0 \<le> (now + tz) mod ms_per_day" "(now + tz) mod ms_per_day < ms_per_day"
    using pos by simp_all
  with split have lo: "D * ms_per_day \<le> now + tz"
    and hi: "now + tz < (D + 1) * ms_per_day"
    by (simp_all add: algebra_simps)
  have "(D - w) * ms_per_day \<le> D * ms_per_day"
    using w unfolding ms by simp
  with lo anchor show "anchor \<le> now"
    by linarith
  have "(D + 1) * ms_per_day \<le> (D - w + 7) * ms_per_day"
    using w unfolding ms by simp
  with hi anchor show "now - anchor < 7 * ms_per_day"
    unfolding ms by (simp add: algebra_simps)
qed

lemma weeklyGoals_updateDailyProgress:
  "weeklyGoals (updateDailyProgress tz p xp activityType timeSpent now)
     = weeklyGoals (updateWeeklyProgress tz p xp activityType timeSpent now)"
  by (simp add: updateDailyProgress_def updateWeeklyProgress_def Let_def)

text \<open>
  Claim C7, as stated, fails in its first branch: the call that resets the counters also
  adds its own XP and time to them, so they are not zero after it. On a new document whose
  anchor is more than seven days old a call with 12 XP and 3 minutes leaves 12 and 3.
\<close>

theorem weekly_rollup_counterexample:
  "7 * ms_per_day
     \<le> 10 * ms_per_day - weekStartDate (weeklyGoals (new_Progress 0 ''u'' ''en'' ''listening'' 0))
   \<and> currentWeekXP (weeklyGoals (updateWeeklyProgress 0
        (new_Progress 0 ''u'' ''en'' ''listening'' 0) 12 ''listening'' 3 (10 * ms_per_day))) = 12
   \<and> currentWeekTime (weeklyGoals (updateWeeklyProgress 0
        (new_Progress 0 ''u'' ''en'' ''listening'' 0) 12 ''listening'' 3 (10 * ms_per_day))) = 3"
  by code_simp

text \<open>
  Claim C7, amended. If at least 7 whole days have passed since the stored anchor, the
  weekly rollup sets the three weekly counters to zero and the anchor to local midnight of
  the most recent Sunday (a day numbered 0 by \<open>getDay\<close>, at most now and less than 7 days
  before now); in either case it then adds the XP and the time of the call to the counters
  and adds 1 to the weekly lesson counter only when the activity is a lesson. So after a
  reset the counters hold what this call contributes, and without a reset what they held
  plus that. \<open>updateDailyProgress\<close> delegates to this rollup.
\<close>

theorem weekly_rollup:
  "(let wg = weeklyGoals p;
        wg' = weeklyGoals (updateWeeklyProgress tz p xp activityType timeSpent now);
        lessons = (if activityType = ''lesson'' then 1 else 0)
    in if 7 * ms_per_day \<le> now - weekStartDate wg
       then currentWeekXP wg' = xp
          \<and> currentWeekTime wg' = timeSpent
          \<and> currentWeekLessons wg' = lessons
          \<and> weekStartDate wg' = local_midnight tz (local_day tz now - getDay tz now)
          \<and> getDay tz (weekStartDate wg') = 0
          \<and> (weekStartDate wg' + tz) mod ms_per_day = 0
          \<and> weekStartDate wg' \<le> now
          \<and> now - weekStartDate wg' < 7 * ms_per_day
       else currentWeekXP wg' = currentWeekXP wg + xp
          \<and> currentWeekTime wg' = currentWeekTime wg + timeSpent
          \<and> currentWeekLessons wg' = currentWeekLessons wg + lessons
          \<and> weekStartDate wg' = weekStartDate wg)
   \<and> weeklyGoals (updateDailyProgress tz p xp activityType timeSpent now)
       = weeklyGoals (updateWeeklyProgress tz p xp activityType timeSpent now)"
proof (intro conjI)
  show "weeklyGoals (updateDailyProgress tz p xp activityType timeSpent now)
       = weeklyGoals (updateWeeklyProgress tz p xp activityType timeSpent now)"
    by (rule weeklyGoals_updateDailyProgress)
next
  show "let wg = weeklyGoals p;
        wg' = weeklyGoals (updateWeeklyProgress tz p xp activityType timeSpent now);
        lessons = (if activityType = ''lesson'' then 1 else 0)
    in if 7 * ms_per_day \<le> now - weekStartDate wg
       then currentWeekXP wg' = xp
          \<and> currentWeekTime wg' = timeSpent
          \<and> currentWeekLessons wg' = lessons
          \<and> weekStartDate wg' = local_midnight tz (local_day tz now - getDay tz now)
          \<and> getDay tz (weekStartDate wg') = 0
          \<and> (weekStartDate wg' + tz) mod ms_per_day = 0
          \<and> weekStartDate wg' \<le> now
          \<and> now - weekStartDate wg' < 7 * ms_per_day
       else currentWeekXP wg' = currentWeekXP wg + xp
          \<and> currentWeekTime wg' = currentWeekTime wg + timeSpent
          \<and> currentWeekLessons wg' = currentWeekLessons wg + lessons
          \<and> weekStartDate wg' = weekStartDate wg"
  proof (cases "7 * ms_per_day \<le> now - weekStartDate (weeklyGoals p)")
    case True
    then show ?thesis
      using sunday_anchor [where tz = tz and now = now]
      unfolding updateWeeklyProgress_def Let_def days_diff_ge_7
      by simp
  next
    case False
    then show ?thesis
      unfolding updateWeeklyProgress_def Let_def days_diff_ge_7
      by simp
  qed
qed

theorem weekly_rollup_witness:
  "currentWeekXP (weeklyGoals (updateWeeklyProgress 0
       (new_Progress 0 ''u'' ''en'' ''listening'' 0) 12 ''lesson'' 3
       (10 * ms_per_day + 18000000))) = 12
   \<and> currentWeekLessons (weeklyGoals (updateWeeklyProgress 0
       (new_Progress 0 ''u'' ''en'' ''listening'' 0) 12 ''lesson'' 3
       (10 * ms_per_day + 18000000))) = 1
   \<and> weekStartDate (weeklyGoals (updateWeeklyProgress 0
       (new_Progress 0 ''u'' ''en'' ''listening'' 0) 12 ''lesson'' 3
       (10 * ms_per_day + 18000000))) = 10 * ms_per_day
   \<and> currentWeekXP (weeklyGoals (updateWeeklyProgress 0
       (new_Progress 0 ''u'' ''en'' ''listening'' 0) 12 ''listening'' 3 ms_per_day)) = 12
   \<and> weekStartDate (weeklyGoals (updateWeeklyProgress 0
       (new_Progress 0 ''u'' ''en'' ''listening'' 0) 12 ''listening'' 3 ms_per_day))
       = - 4 * ms_per_day"
  (is "currentWeekXP (weeklyGoals (updateWeeklyProgress 0 ?p 12 ''lesson'' 3 ?late)) = 12 \<and> _")
proof -
  have stale: "7 * ms_per_day \<le> ?late - weekStartDate (weeklyGoals ?p)"
    and fresh: "\<not> 7 * ms_per_day \<le> ms_per_day - weekStartDate (weeklyGoals ?p)"
    by code_simp+
  have sunday: "local_midnight 0 (local_day 0 ?late - getDay 0 ?late) = 10 * ms_per_day"
    by code_simp
  have start: "weekStartDate (weeklyGoals ?p) = - 4 * ms_per_day"
    "currentWeekXP (weeklyGoals ?p) = 0"
    by code_simp+
  from weekly_rollup [where p = ?p and tz = 0 and xp = 12 and activityType = "''lesson''"
      and timeSpent = 3 and now = ?late, THEN conjunct1] stale sunday
  have a: "currentWeekXP (weeklyGoals (updateWeeklyProgress 0 ?p 12 ''lesson'' 3 ?late)) = 12
    \<and> currentWeekLessons (weeklyGoals (updateWeeklyProgress 0 ?p 12 ''lesson'' 3 ?late)) = 1
    \<and> weekStartDate (weeklyGoals (updateWeeklyProgress 0 ?p 12 ''lesson'' 3 ?late))
        = 10 * ms_per_day"
    by (simp add: Let_def)
  from weekly_rollup [where p = ?p and tz = 0 and xp = 12 and activityType = "''listening''"
      and timeSpent = 3 and now = ms_per_day, THEN conjunct1] fresh start
  have b: "currentWeekXP (weeklyGoals (updateWeeklyProgress 0 ?p 12 ''listening'' 3 ms_per_day))
        = 12
    \<and> weekStartDate (weeklyGoals (updateWeeklyProgress 0 ?p 12 ''listening'' 3 ms_per_day))
        = - 4 * ms_per_day"
    by (simp add: Let_def)
  from a b show ?thesis by blast
qed


section \<open>The statistics\<close>

text \<open>
  Claim C8, as stated, fails twice. \<open>averageScore\<close> is not 0 when no lesson is completed
  or mastered: a lesson completed with 80 and then attempted with 10 is \<open>in_progress\<close>, and
  recomputation leaves 80. And \<open>bestStreak\<close> is no function of the collections: two
  documents with the same collections keep their different values of it.
\<close>

theorem statistics_recomputed_counterexample:
  "map les_status (lessonProgress
      (updateLessonProgress
        (updateLessonProgress (new_Progress 0 ''u'' ''en'' ''speaking'' 0) ''l1'' 80 10 1)
        ''l1'' 10 10 2)) = [in_progress]
   \<and> averageScore (statistics
      (updateStatistics
        (updateLessonProgress
          (updateLessonProgress (new_Progress 0 ''u'' ''en'' ''speaking'' 0) ''l1'' 80 10 1)
          ''l1'' 10 10 2))) = 80
   \<and> bestStreak (statistics
      (updateStatistics (new_Progress 0 ''u'' ''en'' ''speaking'' 0))) = 0
   \<and> bestStreak (statistics
      (updateStatistics
        ((new_Progress 0 ''u'' ''en'' ''speaking'' 0)
          \<lparr>statistics :=
             (statistics (new_Progress 0 ''u'' ''en'' ''speaking'' 0))\<lparr>bestStreak := 5\<rparr>\<rparr>)))
      = 5"
  by code_simp

text \<open>
  Claim C8, amended. After \<open>updateStatistics\<close> the counts \<open>totalLessonsCompleted\<close>,
  \<open>perfectScores\<close>, \<open>wordsLearned\<close>, \<open>speakingExercisesCompleted\<close> and
  \<open>listeningExercisesCompleted\<close> and the sum \<open>totalTimeSpent\<close> are functions of the
  collections alone; \<open>averageScore\<close> is the mean score of the completed or mastered
  lessons whenever there is one; \<open>averageSpeakingScore\<close> and \<open>averageListeningScore\<close>
  are the rounded means of the entries' average scores whenever their array is not empty;
  \<open>bestStreak\<close> is what it was. The collections are untouched and a second recomputation
  changes nothing.
\<close>

theorem statistics_recomputed:
  "(let st = statistics (updateStatistics p);
        finished = filter (\<lambda>lp. les_status lp = completed \<or> les_status lp = mastered)
                     (lessonProgress p)
    in totalLessonsCompleted st = of_nat (length finished)
     \<and> totalTimeSpent st = sum_list (map les_timeSpent (lessonProgress p))
     \<and> (finished \<noteq> [] \<longrightarrow>
          averageScore st = sum_list (map les_score finished) / of_nat (length finished))
     \<and> perfectScores st
         = of_nat (length (filter (\<lambda>lp. les_score lp = 100) (lessonProgress p)))
     \<and> wordsLearned st = of_nat (length (filter voc_isLearned (vocabularyProgress p)))
     \<and> speakingExercisesCompleted st
         = of_nat (length (filter spk_isCompleted (speakingProgress p)))
     \<and> listeningExercisesCompleted st
         = of_nat (length (filter lis_isCompleted (listeningProgress p)))
     \<and> (speakingProgress p \<noteq> [] \<longrightarrow>
          averageSpeakingScore st
            = js_round (sum_list (map spk_averageScore (speakingProgress p))
                        / of_nat (length (speakingProgress p))))
     \<and> (listeningProgress p \<noteq> [] \<longrightarrow>
          averageListeningScore st
            = js_round (sum_list (map lis_averageScore (listeningProgress p))
                        / of_nat (length (listeningProgress p))))
     \<and> bestStreak st = bestStreak (statistics p))
   \<and> updateStatistics p = p\<lparr>statistics := statistics (updateStatistics p)\<rparr>
   \<and> updateStatistics (updateStatistics p) = updateStatistics p"
proof (intro conjI)
  show "updateStatistics p = p\<lparr>statistics := statistics (updateStatistics p)\<rparr>"
    by (simp add: updateStatistics_def Let_def)
  show "updateStatistics (updateStatistics p) = updateStatistics p"
    by (simp add: updateStatistics_def Let_def)
  show "let st = statistics (updateStatistics p);
        finished = filter (\<lambda>lp. les_status lp = completed \<or> les_status lp = mastered)
                     (lessonProgress p)
    in totalLessonsCompleted st = of_nat (length finished)
     \<and> totalTimeSpent st = sum_list (map les_timeSpent (lessonProgress p))
     \<and> (finished \<noteq> [] \<longrightarrow>
          averageScore st = sum_list (map les_score finished) / of_nat (length finished))
     \<and> perfectScores st
         = of_nat (length (filter (\<lambda>lp. les_score lp = 100) (lessonProgress p)))
     \<and> wordsLearned st = of_nat (length (filter voc_isLearned (vocabularyProgress p)))
     \<and> speakingExercisesCompleted st
         = of_nat (length (filter spk_isCompleted (speakingProgress p)))
     \<and> listeningExercisesCompleted st
         = of_nat (length (filter lis_isCompleted (listeningProgress p)))
     \<and> (speakingProgress p \<noteq> [] \<longrightarrow>
          averageSpeakingScore st
            = js_round (sum_list (map spk_averageScore (speakingProgress p))
                        / of_nat (length (speakingProgress p))))
     \<and> (listeningProgress p \<noteq> [] \<longrightarrow>
          averageListeningScore st
            = js_round (sum_list (map lis_averageScore (listeningProgress p))
                        / of_nat (length (listeningProgress p))))
     \<and> bestStreak st = bestStreak (statistics p)"
    by (simp add: updateStatistics_def Let_def foldl_plus_sum_list)
qed

theorem statistics_recomputed_witness:
  "averageScore (statistics (updateStatistics
      (run 0 (new_Progress 0 ''u'' ''en'' ''speaking'' 0)
        [Lesson ''l1'' 80 10 1,
         Speaking speaking_e1 (speaking_scored 50 50 50) 2,
         Speaking speaking_e1 (speaking_scored 90 80 70) 3,
         Listening listening_a1 (listening_scored 20) 4,
         Listening listening_a1 (listening_scored 55) 5]))) = 80
   \<and> averageSpeakingScore (statistics (updateStatistics
      (run 0 (new_Progress 0 ''u'' ''en'' ''speaking'' 0)
        [Lesson ''l1'' 80 10 1,
         Speaking speaking_e1 (speaking_scored 50 50 50) 2,
         Speaking speaking_e1 (speaking_scored 90 80 70) 3,
         Listening listening_a1 (listening_scored 20) 4,
         Listening listening_a1 (listening_scored 55) 5]))) = 80
   \<and> averageListeningScore (statistics (updateStatistics
      (run 0 (new_Progress 0 ''u'' ''en'' ''speaking'' 0)
        [Lesson ''l1'' 80 10 1,
         Speaking speaking_e1 (speaking_scored 50 50 50) 2,
         Speaking speaking_e1 (speaking_scored 90 80 70) 3,
         Listening listening_a1 (listening_scored 20) 4,
         Listening listening_a1 (listening_scored 55) 5]))) = 55"
  (is "averageScore (statistics (updateStatistics ?q)) = 80 \<and> _")
proof -
  let ?finished = "filter (\<lambda>lp. les_status lp = completed \<or> les_status lp = mastered)
                     (lessonProgress ?q)"
  have lessons: "?finished \<noteq> []"
    "sum_list (map les_score ?finished) / of_nat (length ?finished) = 80"
    by code_simp+
  have speaking: "speakingProgress ?q \<noteq> []"
    "js_round (sum_list (map spk_averageScore (speakingProgress ?q))
               / of_nat (length (speakingProgress ?q))) = 80"
    by code_simp+
  have listening: "listeningProgress ?q \<noteq> []"
    "js_round (sum_list (map lis_averageScore (listeningProgress ?q))
               / of_nat (length (listeningProgress ?q))) = 55"
    by code_simp+
  from statistics_recomputed [where p = ?q, THEN conjunct1]
  have "(?finished \<noteq> [] \<longrightarrow>
          averageScore (statistics (updateStatistics ?q))
            = sum_list (map les_score ?finished) / of_nat (length ?finished))
     \<and> (speakingProgress ?q \<noteq> [] \<longrightarrow>
          averageSpeakingScore (statistics (updateStatistics ?q))
            = js_round (sum_list (map spk_averageScore (speakingProgress ?q))
                        / of_nat (length (speakingProgress ?q))))
     \<and> (listeningProgress ?q \<noteq> [] \<longrightarrow>
          averageListeningScore (statistics (updateStatistics ?q))
            = js_round (sum_list (map lis_averageScore (listeningProgress ?q))
                        / of_nat (length (listeningProgress ?q))))"
    unfolding Let_def by blast
  with lessons(1) speaking(1) listening(1)
  have "averageScore (statistics (updateStatistics ?q))
            = sum_list (map les_score ?finished) / of_nat (length ?finished)"
    and "averageSpeakingScore (statistics (updateStatistics ?q))
            = js_round (sum_list (map spk_averageScore (speakingProgress ?q))
                        / of_nat (length (speakingProgress ?q)))"
    and "averageListeningScore (statistics (updateStatistics ?q))
            = js_round (sum_list (map lis_averageScore (listeningProgress ?q))
                        / of_nat (length (listeningProgress ?q)))"
    by blast+
  with lessons(2) speaking(2) listening(2) show ?thesis
    by (simp only:)
qed

section \<open>The new-best flag of the practice handlers\<close>

lemma lis_bestScore_listening_attempt:
  "lis_bestScore (listening_attempt ad now lp) = max (ld_comprehensionScore ad) (lis_bestScore lp)"
  by (simp add: listening_attempt_def Let_def max_def)

lemma spk_bestScore_speaking_attempt:
  "spk_bestScore (speaking_attempt ad now sp) = max (speaking_overall ad) (spk_bestScore sp)"
  by (simp add: speaking_attempt_def Let_def max_def)

lemma listening_of_after_practice:
  "listening_of (updateDailyProgress tz (snd (updateSkillProgress p s x a now)) y ty t now') e
     = listening_of p e"
  by (simp add: listening_of_def)

lemma speaking_of_after_practice:
  "speaking_of (updateDailyProgress tz (snd (updateSkillProgress p s x a now)) y ty t now') e
     = speaking_of p e"
  by (simp add: speaking_of_def)

text \<open>
  The handler reads \<open>bestScore\<close> after the method has run. For an exercise that had an
  entry it reads the best score already raised to the score of the attempt, and answers
  false; for a new exercise it reads the 0 of the entry as pushed.
\<close>

lemma listening_practice_new_best:
  "lr_newBestScore (fst (listening_practice tz found uid lang exerciseData attemptData now))
     = (case listening_of
               (case found of Some p \<Rightarrow> p | None \<Rightarrow> new_Progress tz uid lang ''listening'' now)
               (lx_exerciseId exerciseData) of
          Some lp \<Rightarrow> False
        | None \<Rightarrow> 0 < ld_comprehensionScore attemptData)"
  unfolding listening_practice_def Let_def case_prod_beta
  by (simp add: listening_of_def [symmetric] listening_of_after_practice listening_of_update
        fst_updateListeningProgress lis_bestScore_listening_attempt new_listening_def
      split: option.splits)

lemma speaking_practice_new_best:
  "sr_newBestScore (fst (speaking_practice tz found uid lang exerciseData attemptData now))
     = (case speaking_of
               (case found of Some p \<Rightarrow> p | None \<Rightarrow> new_Progress tz uid lang ''speaking'' now)
               (sx_exerciseId exerciseData) of
          Some sp \<Rightarrow> False
        | None \<Rightarrow> 0 < speaking_overall attemptData)"
  unfolding speaking_practice_def Let_def case_prod_beta
  by (simp add: speaking_of_def [symmetric] speaking_of_after_practice speaking_of_update
        fst_updateSpeakingProgress spk_bestScore_speaking_attempt new_speaking_def
      split: option.splits)

text \<open>
  Claim C1 does not hold of the code. The handlers compare the score of the attempt with
  the \<open>bestScore\<close> of the entry after the method has run. On an exercise that already has
  an entry that is never below the score, so \<open>newBestScore\<close> is false however high the
  score; only the first attempt on an exercise, compared with the 0 of the new entry, can
  be answered true. After a listening attempt of 50 and one of 60 on a new document the
  stored best score is 60, and a third attempt of 90 is answered with \<open>newBestScore\<close>
  false; so is a speaking attempt of 90 after attempts of 50 and 60.
\<close>

theorem practice_new_best_flag:
  "lr_newBestScore (fst (listening_practice tz found uid lang lx ld now))
     = (case listening_of
               (case found of Some p \<Rightarrow> p | None \<Rightarrow> new_Progress tz uid lang ''listening'' now)
               (lx_exerciseId lx) of
          Some lp \<Rightarrow> False
        | None \<Rightarrow> 0 < ld_comprehensionScore ld)
   \<and> sr_newBestScore (fst (speaking_practice tz found uid lang sx sd now))
     = (case speaking_of
               (case found of Some p \<Rightarrow> p | None \<Rightarrow> new_Progress tz uid lang ''speaking'' now)
               (sx_exerciseId sx) of
          Some sp \<Rightarrow> False
        | None \<Rightarrow> 0 < speaking_overall sd)
   \<and> map_option lis_bestScore (listening_of
        (snd (listening_practice 0
           (Some (snd (listening_practice 0 None ''u'' ''en'' listening_a1
                         (listening_scored 50) 1)))
           ''u'' ''en'' listening_a1 (listening_scored 60) 2))
        ''a1'') = Some 60
   \<and> lr_newBestScore (fst (listening_practice 0
        (Some (snd (listening_practice 0
           (Some (snd (listening_practice 0 None ''u'' ''en'' listening_a1
                         (listening_scored 50) 1)))
           ''u'' ''en'' listening_a1 (listening_scored 60) 2)))
        ''u'' ''en'' listening_a1 (listening_scored 90) 3)) = False
   \<and> map_option spk_bestScore (speaking_of
        (snd (speaking_practice 0
           (Some (snd (speaking_practice 0 None ''u'' ''en'' speaking_e1
                         (speaking_scored 50 50 50) 1)))
           ''u'' ''en'' speaking_e1 (speaking_scored 60 60 60) 2))
        ''e1'') = Some 60
   \<and> sr_newBestScore (fst (speaking_practice 0
        (Some (snd (speaking_practice 0
           (Some (snd (speaking_practice 0 None ''u'' ''en'' speaking_e1
                         (speaking_scored 50 50 50) 1)))
           ''u'' ''en'' speaking_e1 (speaking_scored 60 60 60) 2)))
        ''u'' ''en'' speaking_e1 (speaking_scored 90 90 90) 3)) = False"
proof (intro conjI)
  show "lr_newBestScore (fst (listening_practice tz found uid lang lx ld now))
     = (case listening_of
               (case found of Some p \<Rightarrow> p | None \<Rightarrow> new_Progress tz uid lang ''listening'' now)
               (lx_exerciseId lx) of
          Some lp \<Rightarrow> False
        | None \<Rightarrow> 0 < ld_comprehensionScore ld)"
    by (rule listening_practice_new_best)
  show "sr_newBestScore (fst (speaking_practice tz found uid lang sx sd now))
     = (case speaking_of
               (case found of Some p \<Rightarrow> p | None \<Rightarrow> new_Progress tz uid lang ''speaking'' now)
               (sx_exerciseId sx) of
          Some sp \<Rightarrow> False
        | None \<Rightarrow> 0 < speaking_overall sd)"
    by (rule speaking_practice_new_best)
qed (code_simp+)

end
